theory Spec2Isabelle
  imports Main "HOL-Library.Word"
begin

unbundle bit_operations_syntax

section \<open>Game objects and systems (Atlas/System.h)\<close>

text \<open>
  \<open>std::bitset<BITSIZE>\<close> is a \<open>'w word\<close>: the constant \<open>BITSIZE\<close> of Bitsize.h is
  the length of the type \<open>'w\<close>, so every statement below holds for each width.
  \<open>FGameObject\<close> (GameObject.h) is used by System.h through its ID and its component bit
  mask only. \<open>FGameObject::ID\<close> is an integer identity; \<open>FWorld&\<close> is the address of the
  world object.
\<close>

type_synonym ID = nat

type_synonym FWorld_ref = nat

record (overloaded) ('w::len) FGameObject =
  mID :: ID
  mComponentBitMask :: "'w word"

text \<open>
  \<open>class ISystem\<close>, private members in declaration order. \<open>mTypeid\<close> is the dynamic type of
  the object, the value \<open>typeid(*System)\<close> reads; it is fixed by the constructor of the
  concrete class.
\<close>

record (overloaded) ('t, 'w::len) ISystem =
  mTypeid :: 't
  mWorld :: FWorld_ref
  mTypeBitMask :: "'w word"
  mSystemBitMask :: "'w word"
  mGameObjectIDs :: "ID list"

text \<open>
  \<open>ISystem::AddComponentType<Type>()\<close>:
  \<^verbatim>\<open>mTypeBitMask |= SComponentHandleManager::GetBitMask(Type);\<close>
  \<open>SComponentHandleManager::GetBitMask\<close> (ComponentHandleManager.h) is a parameter.
\<close>

definition AddComponentType ::
  "('c \<Rightarrow> 'w word) \<Rightarrow> 'c \<Rightarrow> ('t, 'w::len) ISystem \<Rightarrow> ('t, 'w) ISystem" where
  "AddComponentType GetBitMask Type s =
     s\<lparr>mTypeBitMask := mTypeBitMask s OR GetBitMask Type\<rparr>"

definition GetSystemBitMask :: "('t, 'w::len) ISystem \<Rightarrow> 'w word" where
  "GetSystemBitMask s = mSystemBitMask s"

definition GetTypeBitMask :: "('t, 'w::len) ISystem \<Rightarrow> 'w word" where
  "GetTypeBitMask s = mTypeBitMask s"

definition GetGameObjectIDs :: "('t, 'w::len) ISystem \<Rightarrow> ID list" where
  "GetGameObjectIDs s = mGameObjectIDs s"

definition SetSystemBitMask :: "'w word \<Rightarrow> ('t, 'w::len) ISystem \<Rightarrow> ('t, 'w) ISystem" where
  "SetSystemBitMask BitMask s = s\<lparr>mSystemBitMask := BitMask\<rparr>"

text \<open>
  Modelled from the spec: the bodies of \<open>ISystem::CheckInterest\<close> and
  \<open>ISystem::RemoveObject\<close> (System.cpp) are missing; System.h only declares them.
  The spec (4.2): compute \<open>(componentMask & interestMask) == interestMask\<close>; if true and
  the ID is not already tracked, append the ID; if false and the ID is currently tracked,
  remove it. \<open>RemoveObject\<close> removes the ID from the tracked sequence if present and is a
  no-op otherwise. Removal erases the first occurrence of the ID.
\<close>

definition interested :: "('w::len) FGameObject \<Rightarrow> ('t, 'w) ISystem \<Rightarrow> bool" where
  "interested GameObject s \<longleftrightarrow>
     (mComponentBitMask GameObject AND mTypeBitMask s) = mTypeBitMask s"

definition RemoveObject :: "('w::len) FGameObject \<Rightarrow> ('t, 'w) ISystem \<Rightarrow> ('t, 'w) ISystem" where
  "RemoveObject GameObject s =
     (if mID GameObject \<in> set (mGameObjectIDs s)
      then s\<lparr>mGameObjectIDs := remove1 (mID GameObject) (mGameObjectIDs s)\<rparr>
      else s)"

definition CheckInterest :: "('w::len) FGameObject \<Rightarrow> ('t, 'w) ISystem \<Rightarrow> ('t, 'w) ISystem" where
  "CheckInterest GameObject s =
     (if interested GameObject s
      then (if mID GameObject \<in> set (mGameObjectIDs s) then s
            else s\<lparr>mGameObjectIDs := mGameObjectIDs s @ [mID GameObject]\<rparr>)
      else (if mID GameObject \<in> set (mGameObjectIDs s)
            then s\<lparr>mGameObjectIDs := remove1 (mID GameObject) (mGameObjectIDs s)\<rparr>
            else s))"

section \<open>The system manager (Atlas/SystemManager.h)\<close>

text \<open>
  \<open>class FSystemManager\<close>: the world reference and the owned systems in insertion order.
  Every \<open>unique_ptr\<close> of \<open>mSystems\<close> owns an object made by \<open>new\<close>, so the vector is
  the list of the objects themselves.
\<close>

record (overloaded) ('t, 'w::len) FSystemManager =
  mgr_mWorld :: FWorld_ref
  mSystems :: "('t, 'w) ISystem list"

text \<open>
  \<open>FSystemManager::AddSystem<T>(...)\<close>, the three overloads, which differ in the constructor
  arguments only:
  \<^verbatim>\<open>
  T* RawSystem = new T(mWorld, ...);
  std::unique_ptr<ISystem> System{ RawSystem };
  RawSystem->SetSystemBitMask(SSystemBitManager::GetBitMaskFor(RawSystem));
  mSystems.push_back(std::move(System));
  return *RawSystem;
  \<close>
  The constructor of the concrete class (with its arguments bound) is the parameter
  \<open>new_T\<close>; \<open>SSystemBitManager::GetBitMaskFor\<close> (SystemBitManager.h) is a parameter.
  The result is the referenced object and the manager after the call.
\<close>

definition AddSystem ::
  "(('t, 'w::len) ISystem \<Rightarrow> 'w word) \<Rightarrow> (FWorld_ref \<Rightarrow> ('t, 'w) ISystem) \<Rightarrow>
   ('t, 'w) FSystemManager \<Rightarrow> ('t, 'w) ISystem \<times> ('t, 'w) FSystemManager" where
  "AddSystem GetBitMaskFor new_T m =
     (let RawSystem = new_T (mgr_mWorld m);
          System = SetSystemBitMask (GetBitMaskFor RawSystem) RawSystem
      in (System, m\<lparr>mSystems := mSystems m @ [System]\<rparr>))"

text \<open>
  \<open>FSystemManager::GetSystem<T>()\<close>:
  \<^verbatim>\<open>
  System* SystemPtr = nullptr;
  for (const auto& System : mSystems)
    if (typeid(*System) == typeid(T)) { SystemPtr = System.get(); break; }
  // make sure the System is there and cast is safe
  assert(dynamic_cast<T*>(SystemPtr));
  return static_cast<T*>(SystemPtr);
  \<close>
  The loop is \<open>find_typeid\<close>; a pointer is an \<open>option\<close>, \<open>None\<close> the null pointer.
  \<open>dynamic_cast<T*>\<close> of the null pointer is null and of an object whose \<open>typeid\<close> is
  \<open>T\<close> is the object, so the assertion fails exactly when the loop found nothing. A failed
  \<open>assert\<close> aborts the process; with \<open>NDEBUG\<close> defined the assertion is compiled out.
  The other two errors are the pool allocator's, below.
\<close>

datatype error = AssertionFailed | Exhausted | InvalidHandle

fun find_typeid :: "'t \<Rightarrow> ('t, 'w::len) ISystem list \<Rightarrow> ('t, 'w) ISystem option" where
  "find_typeid T [] = None"
| "find_typeid T (System # rest) =
     (if mTypeid System = T then Some System else find_typeid T rest)"

definition GetSystem ::
  "bool \<Rightarrow> 't \<Rightarrow> ('t, 'w::len) FSystemManager \<Rightarrow> error + ('t, 'w) ISystem option" where
  "GetSystem NDEBUG T m =
     (let SystemPtr = find_typeid T (mSystems m)
      in if NDEBUG then Inr SystemPtr
         else (case SystemPtr of None \<Rightarrow> Inl AssertionFailed | Some S \<Rightarrow> Inr (Some S)))"

text \<open>
  \<open>FSystemManager::GetSystem(const uint32_t Index)\<close>:
  \<^verbatim>\<open>return mSystems[Index].get();\<close>
  \<open>std::vector::operator[]\<close> has no bounds check: an index past the end is undefined
  behaviour, which the model writes as \<open>None\<close> (no defined result); the source has no
  branch for it.
\<close>

definition GetSystem_Index ::
  "('t, 'w::len) FSystemManager \<Rightarrow> 32 word \<Rightarrow> ('t, 'w) ISystem option" where
  "GetSystem_Index m Index =
     (if unat Index < length (mSystems m) then Some (mSystems m ! unat Index) else None)"

text \<open>
  Modelled from the spec: the body of \<open>FSystemManager::CheckInterest\<close> (SystemManager.cpp)
  is missing. The spec (4.3): it forwards to every registered system's \<open>CheckInterest\<close>,
  in registration order.
\<close>

definition FSystemManager_CheckInterest ::
  "('w::len) FGameObject \<Rightarrow> 'c \<Rightarrow> ('t, 'w) FSystemManager \<Rightarrow> ('t, 'w) FSystemManager" where
  "FSystemManager_CheckInterest GameObject UpdatedComponent m =
     m\<lparr>mSystems := map (CheckInterest GameObject) (mSystems m)\<rparr>"

section \<open>Transforms (Math/Transform.inl)\<close>

text \<open>
  \<open>class FTransform\<close>, members in the order of the constructors' initialiser lists. The
  parent pointer is the address of the parent, \<open>None\<close> the null pointer. \<open>Vector3f\<close>
  (Vector3.h) and \<open>FQuaternion\<close> (Quaternion.h) are the type parameters \<open>'v\<close> and \<open>'q\<close>.
\<close>

record ('v, 'q) FTransform =
  mTranslation :: 'v
  mRotation :: 'q
  mScale :: 'v
  mParent :: "nat option"

definition GetPosition :: "('v, 'q) FTransform \<Rightarrow> 'v" where
  "GetPosition t = mTranslation t"

definition GetRotation :: "('v, 'q) FTransform \<Rightarrow> 'q" where
  "GetRotation t = mRotation t"

definition GetScale :: "('v, 'q) FTransform \<Rightarrow> 'v" where
  "GetScale t = mScale t"

definition GetParent :: "('v, 'q) FTransform \<Rightarrow> nat option" where
  "GetParent t = mParent t"

definition SetPosition :: "'v \<Rightarrow> ('v, 'q) FTransform \<Rightarrow> ('v, 'q) FTransform" where
  "SetPosition NewPosition t = t\<lparr>mTranslation := NewPosition\<rparr>"

definition SetRotation :: "'q \<Rightarrow> ('v, 'q) FTransform \<Rightarrow> ('v, 'q) FTransform" where
  "SetRotation NewRotation t = t\<lparr>mRotation := NewRotation\<rparr>"

definition SetScale :: "'v \<Rightarrow> ('v, 'q) FTransform \<Rightarrow> ('v, 'q) FTransform" where
  "SetScale NewScale t = t\<lparr>mScale := NewScale\<rparr>"

definition SetParent :: "nat option \<Rightarrow> ('v, 'q) FTransform \<Rightarrow> ('v, 'q) FTransform" where
  "SetParent NewParent t = t\<lparr>mParent := NewParent\<rparr>"

text \<open>
  The non-member operators:
  \<^verbatim>\<open>
  operator==: Lhs.GetParent() == Rhs.GetParent() && Lhs.GetPosition() == Rhs.GetPosition() &&
              Lhs.GetRotation() == Rhs.GetRotation() && Lhs.GetScale() == Rhs.GetScale()
  operator!=: Lhs.GetParent() != Rhs.GetParent() || Lhs.GetPosition() != Rhs.GetPosition() ||
              Lhs.GetRotation() != Rhs.GetRotation() || Lhs.GetScale() != Rhs.GetScale()
  \<close>
  The parents are compared as pointers. The \<open>==\<close> and \<open>!=\<close> of \<open>Vector3f\<close> and of
  \<open>FQuaternion\<close> are parameters (\<open>eqV\<close>, \<open>neV\<close>, \<open>eqQ\<close>, \<open>neQ\<close>): they compare
  floating-point components in code that is not part of these files. The getters have no
  effect, so the short-circuit evaluation of \<open>&&\<close> and \<open>||\<close> is the conjunction and the
  disjunction.
\<close>

definition FTransform_eq ::
  "('v \<Rightarrow> 'v \<Rightarrow> bool) \<Rightarrow> ('q \<Rightarrow> 'q \<Rightarrow> bool) \<Rightarrow>
   ('v, 'q) FTransform \<Rightarrow> ('v, 'q) FTransform \<Rightarrow> bool" where
  "FTransform_eq eqV eqQ Lhs Rhs \<longleftrightarrow>
     GetParent Lhs = GetParent Rhs \<and>
     eqV (GetPosition Lhs) (GetPosition Rhs) \<and>
     eqQ (GetRotation Lhs) (GetRotation Rhs) \<and>
     eqV (GetScale Lhs) (GetScale Rhs)"

definition FTransform_neq ::
  "('v \<Rightarrow> 'v \<Rightarrow> bool) \<Rightarrow> ('q \<Rightarrow> 'q \<Rightarrow> bool) \<Rightarrow>
   ('v, 'q) FTransform \<Rightarrow> ('v, 'q) FTransform \<Rightarrow> bool" where
  "FTransform_neq neV neQ Lhs Rhs \<longleftrightarrow>
     GetParent Lhs \<noteq> GetParent Rhs \<or>
     neV (GetPosition Lhs) (GetPosition Rhs) \<or>
     neQ (GetRotation Lhs) (GetRotation Rhs) \<or>
     neV (GetScale Lhs) (GetScale Rhs)"

section \<open>The pool allocator (Memory/PoolAllocator.h)\<close>

text \<open>
  Modelled from the spec: \<open>FPoolAllocator\<close> (Memory/PoolAllocator.h) is missing; Chunk.h
  only declares \<open>static FPoolAllocator<sizeof(FBlock) * BLOCKS_PER_CHUNK, 500>
  ChunkAllocator\<close>. The spec (3, 4.5, 9): a fixed-capacity set of fixed-size blocks; a free
  list of available block slots backed by one arena of \<open>blockSize * capacity\<close> bytes, with
  no growth; \<open>Allocate()\<close> returns a block handle or fails with an exhaustion signal when
  capacity is reached; \<open>Free(handle)\<close> returns the block to the free list and fails if
  the handle was not currently allocated from this pool (double free is guarded).

  A handle is the index of a block slot. \<open>Arena\<close> is the content of each slot; it is
  whatever the memory holds, and neither \<open>Allocate\<close> nor \<open>Free\<close> changes it. The free
  list is a stack. \<open>Allocated\<close> lists the live handles.
\<close>

record 'b FPoolAllocator =
  Capacity :: nat
  FreeList :: "nat list"
  Allocated :: "nat list"
  Arena :: "nat \<Rightarrow> 'b"

definition FPoolAllocator_new :: "nat \<Rightarrow> (nat \<Rightarrow> 'b) \<Rightarrow> 'b FPoolAllocator" where
  "FPoolAllocator_new capacity memory =
     \<lparr>Capacity = capacity, FreeList = [0..<capacity], Allocated = [], Arena = memory\<rparr>"

definition Allocate :: "'b FPoolAllocator \<Rightarrow> error + (nat \<times> 'b FPoolAllocator)" where
  "Allocate p =
     (case FreeList p of
        [] \<Rightarrow> Inl Exhausted
      | handle # rest \<Rightarrow> Inr (handle, p\<lparr>FreeList := rest, Allocated := handle # Allocated p\<rparr>))"

definition Free :: "nat \<Rightarrow> 'b FPoolAllocator \<Rightarrow> error + 'b FPoolAllocator" where
  "Free handle p =
     (if handle \<in> set (Allocated p)
      then Inr (p\<lparr>FreeList := handle # FreeList p, Allocated := remove1 handle (Allocated p)\<rparr>)
      else Inl InvalidHandle)"

text \<open>
  \<open>Allocate_n n\<close> is \<open>n\<close> calls of \<open>Allocate\<close> in a row, stopping at the first failure;
  it returns the handles in the order of the calls.
\<close>

fun Allocate_n :: "nat \<Rightarrow> 'b FPoolAllocator \<Rightarrow> error + (nat list \<times> 'b FPoolAllocator)" where
  "Allocate_n 0 p = Inr ([], p)"
| "Allocate_n (Suc n) p =
     (case Allocate p of
        Inl e \<Rightarrow> Inl e
      | Inr (handle, p') \<Rightarrow>
          (case Allocate_n n p' of
             Inl e \<Rightarrow> Inl e
           | Inr (handles, p'') \<Rightarrow> Inr (handle # handles, p'')))"

text \<open>
  Any use of the pool: a sequence of \<open>Allocate\<close> and \<open>Free\<close> calls, where a call that
  fails leaves the pool as it was.
\<close>

datatype pool_call = Call_Allocate | Call_Free nat

fun pool_step :: "'b FPoolAllocator \<Rightarrow> pool_call \<Rightarrow> 'b FPoolAllocator" where
  "pool_step p Call_Allocate = (case Allocate p of Inl e \<Rightarrow> p | Inr (handle, p') \<Rightarrow> p')"
| "pool_step p (Call_Free handle) = (case Free handle p of Inl e \<Rightarrow> p | Inr p' \<Rightarrow> p')"

definition pool_run :: "pool_call list \<Rightarrow> 'b FPoolAllocator \<Rightarrow> 'b FPoolAllocator" where
  "pool_run calls p = foldl pool_step p calls"

text \<open>
  The invariant of a pool of capacity \<open>cap\<close>: every slot of the arena is on exactly one
  of the two lists, once.
\<close>

definition pool_inv :: "nat \<Rightarrow> 'b FPoolAllocator \<Rightarrow> bool" where
  "pool_inv cap p \<longleftrightarrow>
     Capacity p = cap \<and> distinct (FreeList p @ Allocated p) \<and>
     set (FreeList p @ Allocated p) = {0..<cap}"

section \<open>Chunks (Rendering/Chunk.h)\<close>

definition CHUNK_SIZE :: nat where
  "CHUNK_SIZE = 16"

definition BLOCKS_PER_CHUNK :: nat where
  "BLOCKS_PER_CHUNK = CHUNK_SIZE * CHUNK_SIZE * CHUNK_SIZE"

text \<open>
  Modelled from the spec: \<open>FBlock\<close> (Block.h) is missing. The spec: a fixed-size voxel
  record that is active or inactive, inactive (air) by default.
\<close>

record FBlock =
  mIsActive :: bool

definition FBlock_default :: FBlock where
  "FBlock_default = \<lparr>mIsActive = False\<rparr>"

text \<open>
  \<open>class FChunk\<close>, private members: \<open>mBlocks\<close> points to the chunk's block of
  \<open>BLOCKS_PER_CHUNK\<close> voxel records in the static \<open>ChunkAllocator\<close> (a pool handle,
  \<open>None\<close> the null pointer); \<open>mMesh\<close> is the owned mesh, the batched buffer of vertices
  of type \<open>'v\<close> (\<open>FVoxelVertex\<close>, Mesh.h); \<open>mIsLoaded\<close>. The pool is passed to and
  returned by the operations that use it.
\<close>

record 'v FChunk =
  mBlocks :: "nat option"
  mMesh :: "'v list"
  mIsLoaded :: bool

type_synonym ChunkPool = "FBlock list FPoolAllocator"

definition ChunkAllocator :: "(nat \<Rightarrow> FBlock list) \<Rightarrow> ChunkPool" where
  "ChunkAllocator memory = FPoolAllocator_new 500 memory"

definition IsLoaded :: "'v FChunk \<Rightarrow> bool" where
  "IsLoaded c = mIsLoaded c"

text \<open>The voxel records a chunk sees through \<open>mBlocks\<close>.\<close>

definition Blocks :: "'v FChunk \<Rightarrow> ChunkPool \<Rightarrow> FBlock list option" where
  "Blocks c pool = (case mBlocks c of None \<Rightarrow> None | Some handle \<Rightarrow> Some (Arena pool handle))"

text \<open>
  Modelled from the spec: the bodies of \<open>FChunk::FChunk\<close>, \<open>Load\<close>, \<open>Unload\<close>,
  \<open>BuildMesh\<close> and \<open>CreateCube\<close> (Chunk.cpp) are missing; Chunk.h only declares them.
  The spec (4.4): a chunk starts unloaded. \<open>Load()\<close> requests one block from the shared
  pool allocator and fails, propagating the exhaustion, if the pool is at capacity; on
  success it initialises all 4096 voxel records to the default state and marks the chunk
  loaded. \<open>Unload()\<close> releases the voxel block back to the pool, clears the mesh and
  marks the chunk unloaded; on an unloaded chunk it is a no-op.
\<close>

definition FChunk_new :: "'v FChunk" where
  "FChunk_new = \<lparr>mBlocks = None, mMesh = [], mIsLoaded = False\<rparr>"

definition Load :: "'v FChunk \<Rightarrow> ChunkPool \<Rightarrow> error + ('v FChunk \<times> ChunkPool)" where
  "Load c pool =
     (case Allocate pool of
        Inl e \<Rightarrow> Inl e
      | Inr (handle, pool') \<Rightarrow>
          Inr (c\<lparr>mBlocks := Some handle, mIsLoaded := True\<rparr>,
               pool'\<lparr>Arena := (Arena pool')(handle := replicate BLOCKS_PER_CHUNK FBlock_default)\<rparr>))"

definition Unload :: "'v FChunk \<Rightarrow> ChunkPool \<Rightarrow> error + ('v FChunk \<times> ChunkPool)" where
  "Unload c pool =
     (if \<not> mIsLoaded c then Inr (c, pool)
      else (case mBlocks c of
              None \<Rightarrow> Inl InvalidHandle
            | Some handle \<Rightarrow>
                (case Free handle pool of
                   Inl e \<Rightarrow> Inl e
                 | Inr pool' \<Rightarrow> Inr (c\<lparr>mBlocks := None, mMesh := [], mIsLoaded := False\<rparr>, pool'))))"

text \<open>
  Modelled from the spec (4.4): \<open>BuildMesh()\<close> iterates all 4096 voxel slots in a fixed
  scan order (x-major, then y, then z, matching the neighbour addressing); for each active
  voxel it emits geometry only for the faces exposed to an inactive neighbour or to the
  chunk boundary, and appends the emitted vertices to the single batched vertex buffer; a
  rebuild discards the prior geometry. The vertices of one face of the voxel at a position
  are the parameter \<open>FaceVertices\<close> (the vertex layout is not specified). The spec defines
  \<open>BuildMesh\<close> for a chunk that has its voxel block; without one the model returns
  \<open>None\<close>.
\<close>

datatype Face = West | East | Bottom | Top | South | North

definition AllFaces :: "Face list" where
  "AllFaces = [West, East, Bottom, Top, South, North]"

definition BlockIndex :: "nat \<Rightarrow> nat \<Rightarrow> nat \<Rightarrow> nat" where
  "BlockIndex x y z = (x * CHUNK_SIZE + y) * CHUNK_SIZE + z"

definition IsActiveAt :: "FBlock list \<Rightarrow> nat \<times> nat \<times> nat \<Rightarrow> bool" where
  "IsActiveAt blocks Position =
     (case Position of (x, y, z) \<Rightarrow>
        BlockIndex x y z < length blocks \<and> mIsActive (blocks ! BlockIndex x y z))"

text \<open>The adjacent voxel across a face; \<open>None\<close> when it lies outside the chunk.\<close>

fun Neighbour :: "Face \<Rightarrow> nat \<times> nat \<times> nat \<Rightarrow> (nat \<times> nat \<times> nat) option" where
  "Neighbour West (x, y, z) = (if x = 0 then None else Some (x - 1, y, z))"
| "Neighbour East (x, y, z) = (if x + 1 < CHUNK_SIZE then Some (x + 1, y, z) else None)"
| "Neighbour Bottom (x, y, z) = (if y = 0 then None else Some (x, y - 1, z))"
| "Neighbour Top (x, y, z) = (if y + 1 < CHUNK_SIZE then Some (x, y + 1, z) else None)"
| "Neighbour South (x, y, z) = (if z = 0 then None else Some (x, y, z - 1))"
| "Neighbour North (x, y, z) = (if z + 1 < CHUNK_SIZE then Some (x, y, z + 1) else None)"

definition FaceExposed :: "FBlock list \<Rightarrow> nat \<times> nat \<times> nat \<Rightarrow> Face \<Rightarrow> bool" where
  "FaceExposed blocks Position f =
     (case Neighbour f Position of None \<Rightarrow> True | Some n \<Rightarrow> \<not> IsActiveAt blocks n)"

definition ScanOrder :: "(nat \<times> nat \<times> nat) list" where
  "ScanOrder =
     concat (map (\<lambda>x. concat (map (\<lambda>y. map (\<lambda>z. (x, y, z)) [0..<CHUNK_SIZE]) [0..<CHUNK_SIZE]))
       [0..<CHUNK_SIZE])"

text \<open>\<open>CreateCube(Position)\<close> adds the exposed faces of the voxel at the position to the mesh.\<close>

definition CreateCube ::
  "(nat \<times> nat \<times> nat \<Rightarrow> Face \<Rightarrow> 'v list) \<Rightarrow> FBlock list \<Rightarrow> nat \<times> nat \<times> nat \<Rightarrow> 'v list \<Rightarrow> 'v list" where
  "CreateCube FaceVertices blocks Position mesh =
     foldl (\<lambda>mesh f. if FaceExposed blocks Position f then mesh @ FaceVertices Position f else mesh)
       mesh AllFaces"

definition BuildMesh ::
  "(nat \<times> nat \<times> nat \<Rightarrow> Face \<Rightarrow> 'v list) \<Rightarrow> 'v FChunk \<Rightarrow> ChunkPool \<Rightarrow> 'v FChunk option" where
  "BuildMesh FaceVertices c pool =
     (case Blocks c pool of
        None \<Rightarrow> None
      | Some blocks \<Rightarrow>
          Some (c\<lparr>mMesh :=
            foldl (\<lambda>mesh Position.
                     if IsActiveAt blocks Position
                     then CreateCube FaceVertices blocks Position mesh else mesh)
              [] ScanOrder\<rparr>))"

section \<open>Example inputs\<close>

text \<open>
  Concrete inputs for the closed theorems below: a component registry and a system
  registry that assign bit \<open>n\<close> to type number \<open>n\<close> (with \<open>BITSIZE = 8\<close>), a concrete
  system class whose constructor declares interest in the component types 0 and 2, and
  a manager with no system.
\<close>

definition example_GetBitMask :: "nat \<Rightarrow> 8 word" where
  "example_GetBitMask Type = push_bit Type 1"

definition example_GetBitMaskFor :: "(nat, 8) ISystem \<Rightarrow> 8 word" where
  "example_GetBitMaskFor RawSystem = push_bit (mTypeid RawSystem) 1"

definition example_new :: "nat \<Rightarrow> FWorld_ref \<Rightarrow> (nat, 8) ISystem" where
  "example_new T World =
     AddComponentType example_GetBitMask 2 (AddComponentType example_GetBitMask 0
       \<lparr>mTypeid = T, mWorld = World, mTypeBitMask = 0, mSystemBitMask = 0,
        mGameObjectIDs = []\<rparr>)"

definition example_manager :: "(nat, 8) FSystemManager" where
  "example_manager = \<lparr>mgr_mWorld = 0, mSystems = []\<rparr>"

text \<open>
  A transform over integer vectors and quaternions, at position \<open>(x, 0, 0)\<close>, with no
  rotation and unit scale.
\<close>

definition example_transform :: "int \<Rightarrow> nat option \<Rightarrow> (int \<times> int \<times> int, int \<times> int \<times> int \<times> int) FTransform" where
  "example_transform x Parent =
     \<lparr>mTranslation = (x, 0, 0), mRotation = (1, 0, 0, 0), mScale = (1, 1, 1), mParent = Parent\<rparr>"

text \<open>
  Pool memory: \<open>example_memory\<close> holds empty blocks; \<open>solid_memory\<close> holds, in every
  slot, 4096 active voxels. \<open>example_pool\<close> is the chunk allocator over \<open>solid_memory\<close>
  with the slots 0 to 3 live. \<open>example_chunk\<close> is a loaded chunk on slot 0 with a mesh
  from an earlier build, \<open>example_chunk'\<close> a loaded chunk on slot 3 with an empty mesh.
  \<open>example_FaceVertices\<close> emits one vertex per face, tagged with the voxel and the face.
  \<open>corner_blocks\<close> is a block whose only active voxel is the one at the corner
  \<open>(0, 0, 0)\<close>.
\<close>

definition example_memory :: "nat \<Rightarrow> FBlock list" where
  "example_memory handle = []"

definition example_FaceVertices :: "nat \<times> nat \<times> nat \<Rightarrow> Face \<Rightarrow> ((nat \<times> nat \<times> nat) \<times> Face) list" where
  "example_FaceVertices Position f = [(Position, f)]"

definition corner_blocks :: "FBlock list" where
  "corner_blocks = \<lparr>mIsActive = True\<rparr> # replicate 4095 FBlock_default"

definition solid_memory :: "nat \<Rightarrow> FBlock list" where
  "solid_memory handle = replicate 4096 \<lparr>mIsActive = True\<rparr>"

definition example_pool :: ChunkPool where
  "example_pool =
     \<lparr>Capacity = 500, FreeList = [4..<500], Allocated = [3, 2, 1, 0], Arena = solid_memory\<rparr>"

definition example_chunk :: "((nat \<times> nat \<times> nat) \<times> Face) FChunk" where
  "example_chunk = \<lparr>mBlocks = Some 0, mMesh = [((9, 9, 9), Top)], mIsLoaded = True\<rparr>"

definition example_chunk' :: "((nat \<times> nat \<times> nat) \<times> Face) FChunk" where
  "example_chunk' = \<lparr>mBlocks = Some 3, mMesh = [], mIsLoaded = True\<rparr>"

section \<open>Interest tracking\<close>

text \<open>
  \<open>(C & I) == I\<close> says that every bit of \<open>I\<close> is a bit of \<open>C\<close>: the object owns every
  component type the system requires.
\<close>

lemma mask_subset_iff:
  fixes C I :: "'w::len word"
  shows "(C AND I) = I \<longleftrightarrow> (\<forall>n. bit I n \<longrightarrow> bit C n)"
proof
  assume e: "(C AND I) = I"
  show "\<forall>n. bit I n \<longrightarrow> bit C n"
  proof (intro allI impI)
    fix n assume "bit I n"
    then have "bit (C AND I) n" by (simp add: e)
    then show "bit C n" by (simp add: bit_and_iff)
  qed
next
  assume "\<forall>n. bit I n \<longrightarrow> bit C n"
  then show "(C AND I) = I"
    by (intro bit_eqI) (auto simp add: bit_and_iff)
qed

lemma bit_single_mask:
  fixes C :: "'w::len word"
  assumes "k < LENGTH('w)"
  shows "(\<forall>n. bit (push_bit k 1 :: 'w word) n \<longrightarrow> bit C n) = bit C k"
proof -
  have "bit (push_bit k 1 :: 'w word) n \<longleftrightarrow> n = k" for n
    using assms by (auto simp add: bit_push_bit_iff bit_1_iff possible_bit_word simp del: push_bit_of_1)
  then show ?thesis by simp
qed

text \<open>
  The tracked sequence holds no ID twice (the spec's data model forbids duplicates).
  Both operations that change the sequence keep it so, and a freshly constructed system
  tracks nothing.
\<close>

lemma CheckInterest_distinct:
  "distinct (mGameObjectIDs s) \<Longrightarrow> distinct (mGameObjectIDs (CheckInterest g s))"
  by (simp add: CheckInterest_def)

lemma RemoveObject_distinct:
  "distinct (mGameObjectIDs s) \<Longrightarrow> distinct (mGameObjectIDs (RemoveObject g s))"
  by (simp add: RemoveObject_def)

lemma CheckInterest_idem:
  "distinct (mGameObjectIDs s) \<Longrightarrow> CheckInterest g (CheckInterest g s) = CheckInterest g s"
  by (simp add: CheckInterest_def interested_def)

text \<open>
  C1. After \<open>CheckInterest\<close> has evaluated a game object with component mask \<open>C\<close> against
  a system with interest mask \<open>I\<close> (whose tracked sequence holds no duplicates), the
  object's ID is in the tracked sequence if and only if \<open>(C & I) == I\<close>, that is, if and
  only if every bit of \<open>I\<close> is set in \<open>C\<close>. With no required bit the object is always
  tracked; with the single required bit \<open>k\<close> it is tracked exactly when \<open>C\<close> has bit \<open>k\<close>;
  the first two equations cover masks of several bits.
\<close>

theorem CheckInterest_tracked_iff_owns_all:
  fixes g :: "('w::len) FGameObject" and s :: "('t, 'w) ISystem"
  assumes "distinct (GetGameObjectIDs s)"
  shows "((mID g \<in> set (GetGameObjectIDs (CheckInterest g s))) =
            ((mComponentBitMask g AND GetTypeBitMask s) = GetTypeBitMask s)) \<and>
         ((mID g \<in> set (GetGameObjectIDs (CheckInterest g s))) =
            (\<forall>n. bit (GetTypeBitMask s) n \<longrightarrow> bit (mComponentBitMask g) n)) \<and>
         (GetTypeBitMask s = 0 \<longrightarrow> mID g \<in> set (GetGameObjectIDs (CheckInterest g s))) \<and>
         (\<forall>k < LENGTH('w). GetTypeBitMask s = push_bit k 1 \<longrightarrow>
            (mID g \<in> set (GetGameObjectIDs (CheckInterest g s))) = bit (mComponentBitMask g) k)"
proof -
  have a: "(mID g \<in> set (GetGameObjectIDs (CheckInterest g s))) =
            ((mComponentBitMask g AND GetTypeBitMask s) = GetTypeBitMask s)"
    using assms
    by (simp add: CheckInterest_def interested_def GetGameObjectIDs_def GetTypeBitMask_def)
  have b: "((mComponentBitMask g AND GetTypeBitMask s) = GetTypeBitMask s) =
            (\<forall>n. bit (GetTypeBitMask s) n \<longrightarrow> bit (mComponentBitMask g) n)"
    by (rule mask_subset_iff)
  have c: "GetTypeBitMask s = 0 \<longrightarrow> mID g \<in> set (GetGameObjectIDs (CheckInterest g s))"
    using a by simp
  have d: "\<forall>k < LENGTH('w). GetTypeBitMask s = push_bit k 1 \<longrightarrow>
            (mID g \<in> set (GetGameObjectIDs (CheckInterest g s))) = bit (mComponentBitMask g) k"
  proof (intro allI impI)
    fix k assume k: "k < LENGTH('w)" and m: "GetTypeBitMask s = push_bit k 1"
    have "(\<forall>n. bit (GetTypeBitMask s) n \<longrightarrow> bit (mComponentBitMask g) n) = bit (mComponentBitMask g) k"
      using k by (simp only: m bit_single_mask)
    with a b show "(mID g \<in> set (GetGameObjectIDs (CheckInterest g s))) = bit (mComponentBitMask g) k"
      by simp
  qed
  from a b c d show ?thesis by simp
qed

text \<open>
  The spec's example: a system interested in the component bits 0 and 2 (mask 5) tracks
  object 1 with mask 7, does not track object 2 with mask 3, and tracks object 2 once it
  has gained bit 2.
\<close>

theorem CheckInterest_tracked_iff_owns_all_witness:
  "distinct (GetGameObjectIDs (example_new 0 0)) \<and>
   GetTypeBitMask (example_new 0 0) = 5 \<and>
   GetGameObjectIDs (CheckInterest \<lparr>mID = 1, mComponentBitMask = 7\<rparr> (example_new 0 0)) = [1] \<and>
   GetGameObjectIDs (CheckInterest \<lparr>mID = 2, mComponentBitMask = 3\<rparr> (example_new 0 0)) = [] \<and>
   GetGameObjectIDs (CheckInterest \<lparr>mID = 2, mComponentBitMask = 7\<rparr>
     (CheckInterest \<lparr>mID = 2, mComponentBitMask = 3\<rparr>
       (CheckInterest \<lparr>mID = 1, mComponentBitMask = 7\<rparr> (example_new 0 0)))) = [1, 2]"
  using CheckInterest_tracked_iff_owns_all
    [of "example_new 0 0" "\<lparr>mID = 1, mComponentBitMask = 7\<rparr>"]
  by (simp add: example_new_def example_GetBitMask_def AddComponentType_def CheckInterest_def
      interested_def GetGameObjectIDs_def GetTypeBitMask_def)

text \<open>
  C2. When no tracked sequence of the manager holds a duplicate, a second
  \<open>FSystemManager::CheckInterest\<close> for the same game object (whatever component the
  caller names as updated) leaves the manager, hence every tracked sequence, as the first
  call left it. The call is the per-system \<open>CheckInterest\<close> applied to the systems in
  registration order, and afterwards no tracked sequence holds an ID twice.
\<close>

theorem FSystemManager_CheckInterest_idempotent:
  fixes g :: "('w::len) FGameObject" and m :: "('t, 'w) FSystemManager"
  assumes "\<forall>s \<in> set (mSystems m). distinct (GetGameObjectIDs s)"
  shows "FSystemManager_CheckInterest g c' (FSystemManager_CheckInterest g c m) =
           FSystemManager_CheckInterest g c m \<and>
         mSystems (FSystemManager_CheckInterest g c m) = map (CheckInterest g) (mSystems m) \<and>
         (\<forall>s \<in> set (mSystems (FSystemManager_CheckInterest g c m)).
            distinct (GetGameObjectIDs s))"
  using assms
  by (simp add: FSystemManager_CheckInterest_def GetGameObjectIDs_def CheckInterest_idem
      CheckInterest_distinct)

theorem FSystemManager_CheckInterest_idempotent_witness:
  "map (\<lambda>s. distinct (GetGameObjectIDs s))
     (mSystems (snd (AddSystem example_GetBitMaskFor (example_new 3) example_manager))) = [True] \<and>
   map GetGameObjectIDs (mSystems (FSystemManager_CheckInterest
      \<lparr>mID = 1, mComponentBitMask = 7\<rparr> (0::nat)
      (snd (AddSystem example_GetBitMaskFor (example_new 3) example_manager)))) = [[1]] \<and>
   map GetGameObjectIDs (mSystems (FSystemManager_CheckInterest
      \<lparr>mID = 1, mComponentBitMask = 7\<rparr> (2::nat)
     (FSystemManager_CheckInterest \<lparr>mID = 1, mComponentBitMask = 7\<rparr> (0::nat)
      (snd (AddSystem example_GetBitMaskFor (example_new 3) example_manager))))) = [[1]]"
  using FSystemManager_CheckInterest_idempotent
    [of "snd (AddSystem example_GetBitMaskFor (example_new 3) example_manager)"
      "\<lparr>mID = 1, mComponentBitMask = 7\<rparr>" "2::nat" "0::nat"]
  by (simp add: AddSystem_def example_manager_def example_new_def SetSystemBitMask_def
      AddComponentType_def Let_def GetGameObjectIDs_def FSystemManager_CheckInterest_def
      CheckInterest_def interested_def example_GetBitMask_def)

text \<open>
  C8. \<open>AddComponentType\<close> replaces the interest mask by the old mask OR the bit the
  component registry gives for the type, and leaves the dynamic type, the world
  reference, the system-identity mask and the tracked IDs as they were. Two calls
  accumulate both bits; a repeated call for the same type changes nothing.
\<close>

theorem AddComponentType_ors_bit:
  fixes s :: "('t, 'w::len) ISystem"
  shows "GetTypeBitMask (AddComponentType GetBitMask Type s) =
           GetTypeBitMask s OR GetBitMask Type \<and>
     AddComponentType GetBitMask Type s =
       s\<lparr>mTypeBitMask := mTypeBitMask s OR GetBitMask Type\<rparr> \<and>
     mTypeid (AddComponentType GetBitMask Type s) = mTypeid s \<and>
     mWorld (AddComponentType GetBitMask Type s) = mWorld s \<and>
     GetSystemBitMask (AddComponentType GetBitMask Type s) = GetSystemBitMask s \<and>
     GetGameObjectIDs (AddComponentType GetBitMask Type s) = GetGameObjectIDs s \<and>
     GetTypeBitMask (AddComponentType GetBitMask Type' (AddComponentType GetBitMask Type s)) =
       GetTypeBitMask s OR GetBitMask Type OR GetBitMask Type' \<and>
     AddComponentType GetBitMask Type (AddComponentType GetBitMask Type s) =
       AddComponentType GetBitMask Type s"
  by (simp add: AddComponentType_def GetTypeBitMask_def GetSystemBitMask_def GetGameObjectIDs_def
      ac_simps)

section \<open>Registering and looking up systems\<close>

text \<open>The loop of \<open>GetSystem<T>\<close> finds the first system of the type, if there is one.\<close>

lemma find_typeid_None: "find_typeid T xs = None \<longleftrightarrow> T \<notin> mTypeid ` set xs"
  by (induction xs) auto

lemma find_typeid_Some:
  "find_typeid T xs = Some S \<longleftrightarrow>
     (\<exists>pre post. xs = pre @ S # post \<and> mTypeid S = T \<and> T \<notin> mTypeid ` set pre)"
proof (induction xs)
  case Nil
  then show ?case by simp
next
  case (Cons a xs)
  show ?case
  proof (cases "mTypeid a = T")
    case True
    have "(\<exists>pre post. a # xs = pre @ S # post \<and> mTypeid S = T \<and> T \<notin> mTypeid ` set pre) \<longleftrightarrow> a = S"
    proof
      assume "\<exists>pre post. a # xs = pre @ S # post \<and> mTypeid S = T \<and> T \<notin> mTypeid ` set pre"
      then obtain pre post where p: "a # xs = pre @ S # post" "T \<notin> mTypeid ` set pre" by blast
      show "a = S"
      proof (cases pre)
        case Nil with p show ?thesis by simp
      next
        case (Cons b pre') with p True show ?thesis by auto
      qed
    next
      assume "a = S"
      with True have "a # xs = [] @ S # xs \<and> mTypeid S = T \<and> T \<notin> mTypeid ` set []" by simp
      then show "\<exists>pre post. a # xs = pre @ S # post \<and> mTypeid S = T \<and> T \<notin> mTypeid ` set pre"
        by blast
    qed
    with True show ?thesis by auto
  next
    case False
    have "(\<exists>pre post. a # xs = pre @ S # post \<and> mTypeid S = T \<and> T \<notin> mTypeid ` set pre) \<longleftrightarrow>
          (\<exists>pre post. xs = pre @ S # post \<and> mTypeid S = T \<and> T \<notin> mTypeid ` set pre)"
    proof
      assume "\<exists>pre post. a # xs = pre @ S # post \<and> mTypeid S = T \<and> T \<notin> mTypeid ` set pre"
      then obtain pre post where p: "a # xs = pre @ S # post" "mTypeid S = T" "T \<notin> mTypeid ` set pre" by blast
      show "\<exists>pre post. xs = pre @ S # post \<and> mTypeid S = T \<and> T \<notin> mTypeid ` set pre"
      proof (cases pre)
        case Nil with p False show ?thesis by simp
      next
        case (Cons b pre') with p show ?thesis by auto
      qed
    next
      assume "\<exists>pre post. xs = pre @ S # post \<and> mTypeid S = T \<and> T \<notin> mTypeid ` set pre"
      then obtain pre post where p: "xs = pre @ S # post" "mTypeid S = T" "T \<notin> mTypeid ` set pre" by blast
      with False have "a # xs = (a # pre) @ S # post \<and> mTypeid S = T \<and> T \<notin> mTypeid ` set (a # pre)"
        by auto
      then show "\<exists>pre post. a # xs = pre @ S # post \<and> mTypeid S = T \<and> T \<notin> mTypeid ` set pre"
        by blast
    qed
    with False Cons show ?thesis by simp
  qed
qed

text \<open>
  C3, as stated, fails: \<open>AddSystem\<close> has no check for a system of the same concrete type.
  Two calls for the type 3 on the empty manager leave two systems of type 3.
\<close>

theorem AddSystem_accepts_duplicate_type:
  "map mTypeid (mSystems (snd (AddSystem example_GetBitMaskFor (example_new 3)
      (snd (AddSystem example_GetBitMaskFor (example_new 3) example_manager))))) = [3, 3]"
  by (simp add: AddSystem_def example_manager_def example_new_def SetSystemBitMask_def
      AddComponentType_def Let_def)

text \<open>
  C3, amended. On every manager, whether or not a system of the type is registered,
  \<open>AddSystem\<close> constructs one instance with the manager's world, sets its system-identity
  mask to what the system registry gives for it, appends it as the last system and
  returns it; the number of registered systems, and of those of this concrete type, each
  grow by one.
\<close>

theorem AddSystem_appends_one:
  fixes m :: "('t, 'w::len) FSystemManager"
  shows "mSystems (snd (AddSystem GetBitMaskFor new_T m)) =
           mSystems m @ [fst (AddSystem GetBitMaskFor new_T m)] \<and>
         mgr_mWorld (snd (AddSystem GetBitMaskFor new_T m)) = mgr_mWorld m \<and>
         fst (AddSystem GetBitMaskFor new_T m) =
           (new_T (mgr_mWorld m))\<lparr>mSystemBitMask := GetBitMaskFor (new_T (mgr_mWorld m))\<rparr> \<and>
         GetSystemBitMask (fst (AddSystem GetBitMaskFor new_T m)) =
           GetBitMaskFor (new_T (mgr_mWorld m)) \<and>
         length (mSystems (snd (AddSystem GetBitMaskFor new_T m))) = Suc (length (mSystems m)) \<and>
         last (mSystems (snd (AddSystem GetBitMaskFor new_T m))) =
           fst (AddSystem GetBitMaskFor new_T m) \<and>
         length (filter (\<lambda>S. mTypeid S = mTypeid (new_T (mgr_mWorld m)))
                   (mSystems (snd (AddSystem GetBitMaskFor new_T m)))) =
           Suc (length (filter (\<lambda>S. mTypeid S = mTypeid (new_T (mgr_mWorld m))) (mSystems m)))"
  by (simp add: AddSystem_def SetSystemBitMask_def GetSystemBitMask_def Let_def)

text \<open>
  C4, as stated, fails: in a build with assertions, \<open>GetSystem<T>\<close> on a manager with no
  system of the type fails its assertion, which aborts the process.
\<close>

theorem GetSystem_absent_assertion_fails:
  "GetSystem False 3 example_manager = Inl AssertionFailed"
  by (simp add: GetSystem_def example_manager_def)

text \<open>
  C4, amended. When no system of the requested type is registered, \<open>GetSystem<T>\<close> fails
  its assertion in a build with assertions and returns the null pointer when \<open>NDEBUG\<close>
  compiles the assertion out. When one is registered, it returns (in both builds) the
  first registered system of that type.
\<close>

theorem GetSystem_by_type:
  fixes m :: "('t, 'w::len) FSystemManager"
  shows "(T \<notin> mTypeid ` set (mSystems m) \<longrightarrow>
            GetSystem False T m = Inl AssertionFailed \<and> GetSystem True T m = Inr None) \<and>
         (T \<in> mTypeid ` set (mSystems m) \<longrightarrow>
            (\<exists>S pre post. GetSystem NDEBUG T m = Inr (Some S) \<and> mTypeid S = T \<and>
               mSystems m = pre @ S # post \<and> T \<notin> mTypeid ` set pre))"
proof (cases "find_typeid T (mSystems m)")
  case None
  then have "T \<notin> mTypeid ` set (mSystems m)" by (simp add: find_typeid_None)
  with None show ?thesis by (simp add: GetSystem_def Let_def)
next
  case (Some S)
  then have "T \<in> mTypeid ` set (mSystems m)"
    using find_typeid_None [of T "mSystems m"] by simp
  moreover have "GetSystem NDEBUG T m = Inr (Some S)"
    using Some by (simp add: GetSystem_def Let_def)
  moreover obtain pre post where "mSystems m = pre @ S # post" "mTypeid S = T" "T \<notin> mTypeid ` set pre"
    using Some find_typeid_Some [of T "mSystems m" S] by blast
  ultimately show ?thesis by blast
qed

theorem GetSystem_by_type_witness:
  "3 \<in> mTypeid ` set (mSystems (snd (AddSystem example_GetBitMaskFor (example_new 3) example_manager))) \<and>
   4 \<notin> mTypeid ` set (mSystems (snd (AddSystem example_GetBitMaskFor (example_new 3) example_manager))) \<and>
   GetSystem False 3 (snd (AddSystem example_GetBitMaskFor (example_new 3) example_manager)) =
     Inr (Some (fst (AddSystem example_GetBitMaskFor (example_new 3) example_manager))) \<and>
   GetSystem False 4 (snd (AddSystem example_GetBitMaskFor (example_new 3) example_manager)) =
     Inl AssertionFailed \<and>
   GetSystem True 4 (snd (AddSystem example_GetBitMaskFor (example_new 3) example_manager)) =
     Inr None"
  using GetSystem_by_type
    [of 4 "snd (AddSystem example_GetBitMaskFor (example_new 3) example_manager)"]
  by (simp add: AddSystem_def example_manager_def example_new_def SetSystemBitMask_def
      AddComponentType_def Let_def GetSystem_def)

text \<open>
  C9. \<open>GetSystem(Index)\<close> reads \<open>mSystems[Index]\<close> with no check. For an index below the
  number of registered systems the result is the (non-null) pointer to the system at that
  position. For an index at or past that number the call has no defined result and no
  not-found signal; callers can reach this: the index equal to the number of systems
  is always out of range.
\<close>

theorem GetSystem_Index_unguarded:
  fixes m :: "('t, 'w::len) FSystemManager"
  shows "(unat Index < length (mSystems m) \<longrightarrow>
            GetSystem_Index m Index = Some (mSystems m ! unat Index) \<and>
            mSystems m ! unat Index \<in> set (mSystems m)) \<and>
         (length (mSystems m) \<le> unat Index \<longrightarrow> GetSystem_Index m Index = None) \<and>
         (length (mSystems m) < 2 ^ 32 \<longrightarrow>
            GetSystem_Index m (word_of_nat (length (mSystems m))) = None)"
  by (simp add: GetSystem_Index_def unat_of_nat)

theorem GetSystem_Index_unguarded_witness:
  "unat (0 :: 32 word) <
     length (mSystems (snd (AddSystem example_GetBitMaskFor (example_new 3) example_manager))) \<and>
   GetSystem_Index (snd (AddSystem example_GetBitMaskFor (example_new 3) example_manager)) 0 =
     Some (fst (AddSystem example_GetBitMaskFor (example_new 3) example_manager)) \<and>
   length (mSystems (snd (AddSystem example_GetBitMaskFor (example_new 3) example_manager)))
     \<le> unat (1 :: 32 word) \<and>
   GetSystem_Index (snd (AddSystem example_GetBitMaskFor (example_new 3) example_manager)) 1 =
     None \<and>
   GetSystem_Index example_manager 0 = None"
  using GetSystem_Index_unguarded
      [of 0 "snd (AddSystem example_GetBitMaskFor (example_new 3) example_manager)"]
    GetSystem_Index_unguarded
      [of 1 "snd (AddSystem example_GetBitMaskFor (example_new 3) example_manager)"]
  by (simp add: AddSystem_def example_manager_def Let_def GetSystem_Index_def)

section \<open>Transform comparison\<close>

text \<open>
  C10. Provided the \<open>!=\<close> of \<open>Vector3f\<close> and of \<open>FQuaternion\<close> are the negations of their
  \<open>==\<close>, \<open>a != b\<close> is the negation of \<open>a == b\<close> for every pair of transforms; and
  \<open>a == b\<close> is true exactly when the parent pointers are equal and the positions, the
  rotations and the scales compare equal. When the component comparisons are equality
  of values, \<open>a == b\<close> is the equality of the two transforms.
\<close>

theorem FTransform_neq_is_not_eq:
  fixes a b :: "('v, 'q) FTransform"
  assumes "\<forall>x y. neV x y = (\<not> eqV x y)" and "\<forall>x y. neQ x y = (\<not> eqQ x y)"
  shows "FTransform_neq neV neQ a b = (\<not> FTransform_eq eqV eqQ a b) \<and>
         FTransform_eq eqV eqQ a b =
           (mParent a = mParent b \<and> eqV (mTranslation a) (mTranslation b) \<and>
            eqQ (mRotation a) (mRotation b) \<and> eqV (mScale a) (mScale b)) \<and>
         FTransform_eq (=) (=) a b = (a = b)"
  using assms
  by (auto simp add: FTransform_eq_def FTransform_neq_def GetParent_def GetPosition_def
      GetRotation_def GetScale_def)

theorem FTransform_neq_is_not_eq_witness:
  "(\<forall>x y :: int \<times> int \<times> int. (x \<noteq> y) = (\<not> x = y)) \<and>
   (\<forall>x y :: int \<times> int \<times> int \<times> int. (x \<noteq> y) = (\<not> x = y)) \<and>
   FTransform_eq (=) (=) (example_transform 1 None) (example_transform 1 None) \<and>
   \<not> FTransform_neq (\<noteq>) (\<noteq>) (example_transform 1 None) (example_transform 1 None) \<and>
   \<not> FTransform_eq (=) (=) (example_transform 1 None) (example_transform 2 None) \<and>
   FTransform_neq (\<noteq>) (\<noteq>) (example_transform 1 None) (example_transform 2 None) \<and>
   \<not> FTransform_eq (=) (=) (example_transform 1 None) (example_transform 1 (Some 8)) \<and>
   FTransform_neq (\<noteq>) (\<noteq>) (example_transform 1 None) (example_transform 1 (Some 8))"
  using FTransform_neq_is_not_eq [of "(\<noteq>)" "(=)" "(\<noteq>)" "(=)" "example_transform 1 None" "example_transform 2 None"]
  by (simp add: FTransform_eq_def FTransform_neq_def GetParent_def GetPosition_def
      GetRotation_def GetScale_def example_transform_def)

section \<open>The pool's capacity\<close>

lemma pool_inv_new: "pool_inv cap (FPoolAllocator_new cap memory)"
  by (simp add: pool_inv_def FPoolAllocator_new_def)

lemma pool_inv_Allocate:
  assumes "pool_inv cap p" and "Allocate p = Inr (h, p')"
  shows "pool_inv cap p'"
proof (cases "FreeList p")
  case Nil
  with assms(2) show ?thesis by (simp add: Allocate_def)
next
  case (Cons a rest)
  with assms(2) have p': "p' = p\<lparr>FreeList := rest, Allocated := a # Allocated p\<rparr>"
    by (auto simp add: Allocate_def)
  from assms(1) Cons show ?thesis
    unfolding pool_inv_def p' by auto
qed

lemma pool_inv_Free:
  assumes "pool_inv cap p" and "Free h p = Inr p'"
  shows "pool_inv cap p'"
proof -
  from assms(2) have h: "h \<in> set (Allocated p)"
    and p': "p' = p\<lparr>FreeList := h # FreeList p, Allocated := remove1 h (Allocated p)\<rparr>"
    by (auto simp add: Free_def split: if_splits)
  have d: "distinct (Allocated p)" and dis: "set (FreeList p) \<inter> set (Allocated p) = {}"
    and df: "distinct (FreeList p)"
    using assms(1) by (auto simp add: pool_inv_def)
  have s: "set (remove1 h (Allocated p)) = set (Allocated p) - {h}"
    using d by simp
  have "distinct ((h # FreeList p) @ remove1 h (Allocated p))"
    using d df dis h s by auto
  moreover have "set ((h # FreeList p) @ remove1 h (Allocated p)) = set (FreeList p @ Allocated p)"
    using h s by auto
  ultimately show ?thesis
    using assms(1) unfolding pool_inv_def p' by simp
qed

lemma pool_inv_step: "pool_inv cap p \<Longrightarrow> pool_inv cap (pool_step p call)"
  by (cases call) (auto split: sum.splits intro: pool_inv_Allocate pool_inv_Free)

lemma pool_inv_run: "pool_inv cap p \<Longrightarrow> pool_inv cap (pool_run calls p)"
  unfolding pool_run_def
  by (induction calls arbitrary: p) (simp_all add: pool_inv_step)

lemma pool_inv_count:
  assumes "pool_inv cap p"
  shows "length (FreeList p) + length (Allocated p) = cap"
proof -
  have d: "distinct (FreeList p @ Allocated p)"
    and s: "set (FreeList p @ Allocated p) = {0..<cap}"
    using assms by (simp_all add: pool_inv_def)
  have "length (FreeList p @ Allocated p) = card (set (FreeList p @ Allocated p))"
    using d by (rule distinct_card [symmetric])
  also have "\<dots> = cap" by (simp only: s card_atLeastLessThan diff_zero)
  finally show ?thesis by simp
qed

lemma pool_inv_live:
  assumes "pool_inv cap p"
  shows "length (Allocated p) \<le> cap \<and> distinct (Allocated p) \<and> set (Allocated p) \<subseteq> {0..<cap}"
  using assms pool_inv_count [OF assms] by (auto simp add: pool_inv_def)

lemma Allocate_n_take:
  "n \<le> length (FreeList p) \<Longrightarrow>
   Allocate_n n p =
     Inr (take n (FreeList p),
          p\<lparr>FreeList := drop n (FreeList p),
            Allocated := rev (take n (FreeList p)) @ Allocated p\<rparr>)"
proof (induction n arbitrary: p)
  case 0
  then show ?case by simp
next
  case (Suc n)
  then obtain a rest where fl: "FreeList p = a # rest" by (cases "FreeList p") auto
  let ?p' = "p\<lparr>FreeList := rest, Allocated := a # Allocated p\<rparr>"
  have al: "Allocate p = Inr (a, ?p')" by (simp add: Allocate_def fl)
  have "n \<le> length (FreeList ?p')" using Suc.prems fl by simp
  from Suc.IH [OF this] show ?case by (simp add: al fl)
qed

lemma Allocate_n_exhausted:
  "length (FreeList p) < n \<Longrightarrow> Allocate_n n p = Inl Exhausted"
proof (induction n arbitrary: p)
  case 0
  then show ?case by simp
next
  case (Suc n)
  show ?case
  proof (cases "FreeList p")
    case Nil
    then show ?thesis by (simp add: Allocate_def)
  next
    case (Cons a rest)
    let ?p' = "p\<lparr>FreeList := rest, Allocated := a # Allocated p\<rparr>"
    have al: "Allocate p = Inr (a, ?p')" by (simp add: Allocate_def Cons)
    have "length (FreeList ?p') < n" using Suc.prems Cons by simp
    from Suc.IH [OF this] show ?thesis by (simp add: al)
  qed
qed

lemma Allocate_full: "FreeList p = [] \<Longrightarrow> Allocate p = Inl Exhausted"
  by (simp add: Allocate_def)

lemma Free_then_Allocate:
  assumes "FreeList p = []" and "h \<in> set (Allocated p)"
  shows "\<exists>freed again.
           Free h p = Inr freed \<and> Allocate freed = Inr (h, again) \<and>
           Allocate again = Inl Exhausted \<and>
           length (Allocated again) = length (Allocated p) \<and>
           length (Allocated freed) = length (Allocated p) - 1"
proof -
  have "0 < length (Allocated p)" using assms(2) by (rule length_pos_if_in_set)
  then show ?thesis
    using assms by (simp add: Free_def Allocate_def length_remove1)
qed

text \<open>
  C5. For a pool of capacity \<open>cap\<close>, starting empty: each of the first \<open>cap\<close> calls of
  \<open>Allocate\<close> succeeds, with distinct handles, all live; the call after them fails with
  \<open>Exhausted\<close>; from the full pool, after \<open>Free\<close> of any live handle one \<open>Allocate\<close>
  succeeds and the next fails with \<open>Exhausted\<close>. After any sequence of calls, the number
  of live blocks is at most \<open>cap\<close> and every live handle is a slot of the arena.
\<close>

theorem pool_capacity_bound:
  fixes memory :: "nat \<Rightarrow> 'b"
  shows
    "(\<forall>n \<le> cap. \<exists>handles p.
        Allocate_n n (FPoolAllocator_new cap memory) = Inr (handles, p) \<and>
        length handles = n \<and> distinct handles \<and> set handles = set (Allocated p) \<and>
        length (Allocated p) = n) \<and>
     Allocate_n (Suc cap) (FPoolAllocator_new cap memory) = Inl Exhausted \<and>
     (\<forall>handles full h.
        Allocate_n cap (FPoolAllocator_new cap memory) = Inr (handles, full) \<and> h \<in> set handles \<longrightarrow>
          Allocate full = Inl Exhausted \<and>
          (\<exists>freed again h'.
             Free h full = Inr freed \<and> length (Allocated freed) = cap - 1 \<and>
             Allocate freed = Inr (h', again) \<and> length (Allocated again) = cap \<and>
             Allocate again = Inl Exhausted)) \<and>
     (\<forall>calls. length (Allocated (pool_run calls (FPoolAllocator_new cap memory))) \<le> cap \<and>
        set (Allocated (pool_run calls (FPoolAllocator_new cap memory))) \<subseteq> {0..<cap})"
proof -
  let ?new = "FPoolAllocator_new cap memory"
  have fl: "FreeList ?new = [0..<cap]" and al: "Allocated ?new = []"
    by (simp_all add: FPoolAllocator_new_def)
  have a: "\<forall>n \<le> cap. \<exists>handles p.
        Allocate_n n ?new = Inr (handles, p) \<and>
        length handles = n \<and> distinct handles \<and> set handles = set (Allocated p) \<and>
        length (Allocated p) = n"
  proof (intro allI impI)
    fix n assume n: "n \<le> cap"
    then have "n \<le> length (FreeList ?new)" by (simp add: fl)
    from Allocate_n_take [OF this] n show "\<exists>handles p.
        Allocate_n n ?new = Inr (handles, p) \<and>
        length handles = n \<and> distinct handles \<and> set handles = set (Allocated p) \<and>
        length (Allocated p) = n"
      by (simp add: fl al)
  qed
  have b: "Allocate_n (Suc cap) ?new = Inl Exhausted"
    by (rule Allocate_n_exhausted) (simp add: fl)
  have c: "\<forall>handles full h.
        Allocate_n cap ?new = Inr (handles, full) \<and> h \<in> set handles \<longrightarrow>
          Allocate full = Inl Exhausted \<and>
          (\<exists>freed again h'.
             Free h full = Inr freed \<and> length (Allocated freed) = cap - 1 \<and>
             Allocate freed = Inr (h', again) \<and> length (Allocated again) = cap \<and>
             Allocate again = Inl Exhausted)"
  proof (intro allI impI, elim conjE)
    fix handles full h
    assume r: "Allocate_n cap ?new = Inr (handles, full)" and h: "h \<in> set handles"
    have "cap \<le> length (FreeList ?new)" by (simp add: fl)
    from Allocate_n_take [OF this] r
    have hs: "handles = [0..<cap]"
      and full: "full = ?new\<lparr>FreeList := [], Allocated := rev [0..<cap] @ []\<rparr>"
      by (simp_all add: fl al)
    have e: "FreeList full = []" and l: "length (Allocated full) = cap"
      and hl: "h \<in> set (Allocated full)"
      using h by (simp_all add: full hs)
    from Free_then_Allocate [OF e hl] Allocate_full [OF e] l
    show "Allocate full = Inl Exhausted \<and>
          (\<exists>freed again h'.
             Free h full = Inr freed \<and> length (Allocated freed) = cap - 1 \<and>
             Allocate freed = Inr (h', again) \<and> length (Allocated again) = cap \<and>
             Allocate again = Inl Exhausted)"
      by auto
  qed
  have d: "\<forall>calls. length (Allocated (pool_run calls ?new)) \<le> cap \<and>
        set (Allocated (pool_run calls ?new)) \<subseteq> {0..<cap}"
    using pool_inv_live [OF pool_inv_run [OF pool_inv_new]] by blast
  from a b c d show ?thesis by blast
qed

text \<open>The chunk allocator has 500 blocks.\<close>

theorem pool_capacity_bound_witness:
  "(\<exists>handles p. Allocate_n 500 (ChunkAllocator example_memory) = Inr (handles, p) \<and>
      length handles = 500 \<and> length (Allocated p) = 500) \<and>
   Allocate_n 501 (ChunkAllocator example_memory) = Inl Exhausted \<and>
   length (Allocated (pool_run [Call_Allocate, Call_Free 0, Call_Free 0, Call_Allocate]
      (ChunkAllocator example_memory))) \<le> 500"
proof -
  note t = pool_capacity_bound [of 500 example_memory]
  from t have "\<exists>handles p. Allocate_n 500 (FPoolAllocator_new 500 example_memory) = Inr (handles, p) \<and>
      length handles = 500 \<and> distinct handles \<and> set handles = set (Allocated p) \<and>
      length (Allocated p) = 500"
    by blast
  moreover from t have "Allocate_n (Suc 500) (FPoolAllocator_new 500 example_memory) = Inl Exhausted"
    by blast
  moreover from t have "length (Allocated (pool_run [Call_Allocate, Call_Free 0, Call_Free 0, Call_Allocate]
      (FPoolAllocator_new 500 example_memory))) \<le> 500"
    by blast
  ultimately show ?thesis
    by (simp add: ChunkAllocator_def) blast
qed

lemma small_pool:
  "Allocate_n 2 (FPoolAllocator_new 2 example_memory) =
     Inr ([0, 1], \<lparr>Capacity = 2, FreeList = [], Allocated = [1, 0], Arena = example_memory\<rparr>) \<and>
   Allocate_n 3 (FPoolAllocator_new 2 example_memory) = Inl Exhausted \<and>
   Free 0 \<lparr>Capacity = 2, FreeList = [], Allocated = [1, 0], Arena = example_memory\<rparr> =
     Inr \<lparr>Capacity = 2, FreeList = [0], Allocated = [1], Arena = example_memory\<rparr> \<and>
   Free 0 \<lparr>Capacity = 2, FreeList = [0], Allocated = [1], Arena = example_memory\<rparr> =
     Inl InvalidHandle \<and>
   Allocate \<lparr>Capacity = 2, FreeList = [0], Allocated = [1], Arena = example_memory\<rparr> =
     Inr (0, \<lparr>Capacity = 2, FreeList = [], Allocated = [0, 1], Arena = example_memory\<rparr>)"
  by (simp add: FPoolAllocator_new_def Allocate_def Free_def numeral_2_eq_2 numeral_3_eq_3 upt_rec)

section \<open>Chunk life cycle and mesh\<close>

lemma blocks_per_chunk: "BLOCKS_PER_CHUNK = 4096"
  by (simp add: BLOCKS_PER_CHUNK_def CHUNK_SIZE_def)

lemma foldl_cube:
  "foldl (\<lambda>mesh f. if P f then mesh @ F f else mesh) mesh fs =
     mesh @ concat (map F (filter P fs))"
  by (induction fs arbitrary: mesh) simp_all

lemma CreateCube_append:
  "CreateCube FaceVertices blocks Position mesh =
     mesh @ concat (map (FaceVertices Position) (filter (FaceExposed blocks Position) AllFaces))"
  by (simp add: CreateCube_def foldl_cube)

lemma foldl_scan:
  "foldl (\<lambda>mesh Position. if A Position then CreateCube FaceVertices blocks Position mesh else mesh)
     mesh ps =
   mesh @ concat (map (\<lambda>Position. CreateCube FaceVertices blocks Position []) (filter A ps))"
proof (induction ps arbitrary: mesh)
  case Nil
  then show ?case by simp
next
  case (Cons a ps)
  show ?case
    by (simp add: Cons.IH) (simp add: CreateCube_append)
qed

lemma Load_ok:
  assumes "FreeList pool = handle # rest"
  shows "Load c pool =
     Inr (c\<lparr>mBlocks := Some handle, mIsLoaded := True\<rparr>,
          pool\<lparr>FreeList := rest, Allocated := handle # Allocated pool,
               Arena := (Arena pool)(handle := replicate BLOCKS_PER_CHUNK FBlock_default)\<rparr>)"
  using assms by (simp add: Load_def Allocate_def)

lemma Load_exhausted: "FreeList pool = [] \<Longrightarrow> Load c pool = Inl Exhausted"
  by (simp add: Load_def Allocate_def)

lemma Unload_ok:
  assumes "mIsLoaded c" and "mBlocks c = Some handle" and "handle \<in> set (Allocated pool)"
  shows "Unload c pool =
     Inr (c\<lparr>mBlocks := None, mMesh := [], mIsLoaded := False\<rparr>,
          pool\<lparr>FreeList := handle # FreeList pool,
               Allocated := remove1 handle (Allocated pool)\<rparr>)"
  using assms by (simp add: Unload_def Free_def)

lemma Unload_unloaded: "\<not> mIsLoaded c \<Longrightarrow> Unload c pool = Inr (c, pool)"
  by (simp add: Unload_def)

text \<open>
  C6. When the pool has a free block, \<open>Load(); Unload(); Load()\<close> succeeds: the chunk is
  loaded after the first and the third call and unloaded in between, and after each
  \<open>Load\<close> its voxel block is 4096 records, all in the default, inactive state, as after a
  first load; the mesh is empty and as many blocks are live as after the first load. The
  same holds whatever was written to the pool's memory while the chunk was loaded.
\<close>

theorem Load_Unload_Load_fresh:
  fixes c :: "'v FChunk" and pool :: ChunkPool
  assumes "FreeList pool \<noteq> []"
  shows "\<exists>c1 p1 c2 p2 c3 p3.
           Load c pool = Inr (c1, p1) \<and> Unload c1 p1 = Inr (c2, p2) \<and> Load c2 p2 = Inr (c3, p3) \<and>
           IsLoaded c1 \<and> \<not> IsLoaded c2 \<and> IsLoaded c3 \<and>
           Blocks c1 p1 = Some (replicate BLOCKS_PER_CHUNK FBlock_default) \<and>
           Blocks c2 p2 = None \<and>
           Blocks c3 p3 = Some (replicate BLOCKS_PER_CHUNK FBlock_default) \<and>
           length (replicate BLOCKS_PER_CHUNK FBlock_default) = 4096 \<and>
           list_all (\<lambda>b. \<not> mIsActive b) (replicate BLOCKS_PER_CHUNK FBlock_default) \<and>
           mMesh c3 = [] \<and>
           length (Allocated p3) = length (Allocated p1) \<and>
           (\<forall>written. \<exists>c2' p2' c3' p3'.
              Unload c1 (p1\<lparr>Arena := written\<rparr>) = Inr (c2', p2') \<and>
              Load c2' p2' = Inr (c3', p3') \<and> IsLoaded c3' \<and>
              Blocks c3' p3' = Some (replicate BLOCKS_PER_CHUNK FBlock_default))"
proof -
  from assms obtain handle rest where fl: "FreeList pool = handle # rest"
    by (cases "FreeList pool") auto
  let ?c1 = "c\<lparr>mBlocks := Some handle, mIsLoaded := True\<rparr>"
  let ?p1 = "pool\<lparr>FreeList := rest, Allocated := handle # Allocated pool,
               Arena := (Arena pool)(handle := replicate BLOCKS_PER_CHUNK FBlock_default)\<rparr>"
  let ?c2 = "?c1\<lparr>mBlocks := None, mMesh := [], mIsLoaded := False\<rparr>"
  have l1: "Load c pool = Inr (?c1, ?p1)" by (rule Load_ok [OF fl])
  have u: "Unload ?c1 (?p1\<lparr>Arena := written\<rparr>) =
      Inr (?c2, (?p1\<lparr>Arena := written\<rparr>)\<lparr>FreeList := handle # FreeList (?p1\<lparr>Arena := written\<rparr>),
               Allocated := remove1 handle (Allocated (?p1\<lparr>Arena := written\<rparr>))\<rparr>)" for written
    by (rule Unload_ok) simp_all
  let ?p2 = "\<lambda>written. (?p1\<lparr>Arena := written\<rparr>)\<lparr>FreeList := handle # FreeList (?p1\<lparr>Arena := written\<rparr>),
               Allocated := remove1 handle (Allocated (?p1\<lparr>Arena := written\<rparr>))\<rparr>"
  have l2: "Load ?c2 (?p2 written) =
      Inr (?c2\<lparr>mBlocks := Some handle, mIsLoaded := True\<rparr>,
           (?p2 written)\<lparr>FreeList := rest, Allocated := handle # Allocated (?p2 written),
               Arena := (Arena (?p2 written))(handle := replicate BLOCKS_PER_CHUNK FBlock_default)\<rparr>)"
    for written
    by (rule Load_ok) simp
  have same: "?p1\<lparr>Arena := Arena ?p1\<rparr> = ?p1" by simp
  have u0: "Unload ?c1 ?p1 = Inr (?c2, ?p2 (Arena ?p1))"
    using u [of "Arena ?p1"] by (simp only: same)
  have n: "length (replicate BLOCKS_PER_CHUNK FBlock_default) = 4096"
    by (simp add: blocks_per_chunk)
  have d: "list_all (\<lambda>b. \<not> mIsActive b) (replicate BLOCKS_PER_CHUNK FBlock_default)"
    by (simp add: list_all_iff FBlock_default_def)
  have w: "\<forall>written. \<exists>c2' p2' c3' p3'.
              Unload ?c1 (?p1\<lparr>Arena := written\<rparr>) = Inr (c2', p2') \<and>
              Load c2' p2' = Inr (c3', p3') \<and> IsLoaded c3' \<and>
              Blocks c3' p3' = Some (replicate BLOCKS_PER_CHUNK FBlock_default)"
  proof
    fix written
    show "\<exists>c2' p2' c3' p3'.
              Unload ?c1 (?p1\<lparr>Arena := written\<rparr>) = Inr (c2', p2') \<and>
              Load c2' p2' = Inr (c3', p3') \<and> IsLoaded c3' \<and>
              Blocks c3' p3' = Some (replicate BLOCKS_PER_CHUNK FBlock_default)"
      apply (intro exI conjI)
         apply (rule u [of written])
        apply (rule l2 [of written])
       apply (simp add: IsLoaded_def)
      apply (simp add: Blocks_def)
      done
  qed
  show ?thesis
    apply (intro exI conjI)
                apply (rule l1)
               apply (rule u0)
              apply (rule l2 [of "Arena ?p1"])
             apply (simp add: IsLoaded_def)
            apply (simp add: IsLoaded_def)
           apply (simp add: IsLoaded_def)
          apply (simp add: Blocks_def)
         apply (simp add: Blocks_def)
        apply (simp add: Blocks_def)
       apply (rule n)
      apply (rule d)
     apply simp
    apply simp
    apply (rule w)
    done
qed

theorem Load_Unload_Load_fresh_witness:
  "FreeList (ChunkAllocator solid_memory) \<noteq> [] \<and>
   (\<exists>c1 p1 c2 p2 c3 p3.
      Load (FChunk_new :: ((nat \<times> nat \<times> nat) \<times> Face) FChunk) (ChunkAllocator solid_memory) =
        Inr (c1, p1) \<and>
      Unload c1 p1 = Inr (c2, p2) \<and> Load c2 p2 = Inr (c3, p3) \<and> IsLoaded c3 \<and>
      Blocks c3 p3 = Some (replicate 4096 \<lparr>mIsActive = False\<rparr>) \<and> mMesh c3 = [])"
proof -
  have h: "FreeList (ChunkAllocator solid_memory) \<noteq> []"
    by (simp add: ChunkAllocator_def FPoolAllocator_new_def)
  from Load_Unload_Load_fresh
    [OF h, of "FChunk_new :: ((nat \<times> nat \<times> nat) \<times> Face) FChunk"] h
  show ?thesis
    by (simp add: blocks_per_chunk FBlock_default_def) blast
qed

lemma BuildMesh_closed:
  "Blocks c pool = Some blocks \<Longrightarrow>
   BuildMesh FaceVertices c pool =
     Some (c\<lparr>mMesh := concat (map (\<lambda>Position. CreateCube FaceVertices blocks Position [])
                          (filter (IsActiveAt blocks) ScanOrder))\<rparr>)"
  by (simp add: BuildMesh_def foldl_scan)

lemma Blocks_mesh_update: "Blocks (c\<lparr>mMesh := m\<rparr>) pool = Blocks c pool"
  by (simp add: Blocks_def)

text \<open>
  C7. For chunks that have their voxel block: \<open>BuildMesh\<close> on two chunks with the same
  voxel contents gives the same vertex buffer (the same vertices in the same order, hence
  the same count), whatever the meshes held before; the buffer is a function of the
  voxels alone. A rebuild of the built chunk, or a build from any earlier mesh content,
  gives the same chunk again: nothing of the earlier geometry remains.
\<close>

theorem BuildMesh_depends_on_voxels_only:
  fixes c1 c2 :: "'v FChunk" and p1 p2 :: ChunkPool
  assumes "Blocks c1 p1 = Some blocks" and "Blocks c2 p2 = Some blocks"
  shows "\<exists>b1 b2.
           BuildMesh FaceVertices c1 p1 = Some b1 \<and> BuildMesh FaceVertices c2 p2 = Some b2 \<and>
           mMesh b1 = mMesh b2 \<and> length (mMesh b1) = length (mMesh b2) \<and>
           mMesh b1 = concat (map (\<lambda>Position. CreateCube FaceVertices blocks Position [])
                          (filter (IsActiveAt blocks) ScanOrder)) \<and>
           BuildMesh FaceVertices b1 p1 = Some b1 \<and>
           BuildMesh FaceVertices (c1\<lparr>mMesh := old\<rparr>) p1 = Some b1"
proof -
  let ?mesh = "concat (map (\<lambda>Position. CreateCube FaceVertices blocks Position [])
                          (filter (IsActiveAt blocks) ScanOrder))"
  have b1: "BuildMesh FaceVertices c1 p1 = Some (c1\<lparr>mMesh := ?mesh\<rparr>)"
    by (rule BuildMesh_closed [OF assms(1)])
  have b2: "BuildMesh FaceVertices c2 p2 = Some (c2\<lparr>mMesh := ?mesh\<rparr>)"
    by (rule BuildMesh_closed [OF assms(2)])
  have "Blocks (c1\<lparr>mMesh := ?mesh\<rparr>) p1 = Some blocks"
    using assms(1) by (simp only: Blocks_mesh_update)
  from BuildMesh_closed [OF this]
  have r: "BuildMesh FaceVertices (c1\<lparr>mMesh := ?mesh\<rparr>) p1 = Some (c1\<lparr>mMesh := ?mesh\<rparr>)"
    by simp
  have "Blocks (c1\<lparr>mMesh := old\<rparr>) p1 = Some blocks"
    using assms(1) by (simp only: Blocks_mesh_update)
  from BuildMesh_closed [OF this]
  have o: "BuildMesh FaceVertices (c1\<lparr>mMesh := old\<rparr>) p1 = Some (c1\<lparr>mMesh := ?mesh\<rparr>)"
    by simp
  show ?thesis
    using b1 b2 r o by simp
qed

theorem BuildMesh_depends_on_voxels_only_witness:
  "Blocks example_chunk example_pool = Some (solid_memory 0) \<and>
   Blocks example_chunk' example_pool = Some (solid_memory 0) \<and>
   mMesh example_chunk \<noteq> mMesh example_chunk' \<and>
   (\<exists>b1 b2.
      BuildMesh example_FaceVertices example_chunk example_pool = Some b1 \<and>
      BuildMesh example_FaceVertices example_chunk' example_pool = Some b2 \<and>
      mMesh b1 = mMesh b2 \<and>
      BuildMesh example_FaceVertices b1 example_pool = Some b1)"
proof -
  have h1: "Blocks example_chunk example_pool = Some (solid_memory 0)"
    by (simp add: Blocks_def example_chunk_def example_pool_def)
  have h2: "Blocks example_chunk' example_pool = Some (solid_memory 0)"
    by (simp add: Blocks_def example_chunk'_def example_pool_def solid_memory_def)
  have h3: "mMesh example_chunk \<noteq> mMesh example_chunk'"
    by (simp add: example_chunk_def example_chunk'_def)
  from BuildMesh_depends_on_voxels_only [OF h1 h2, of example_FaceVertices] h1 h2 h3
  show ?thesis
    by blast
qed

text \<open>
  The mesh model on single voxels: a lone voxel at the corner shows all six faces; in a
  block of active voxels an interior voxel shows none and one on the rim shows the two
  faces on the chunk boundary.
\<close>

lemma cube_corner:
  "CreateCube example_FaceVertices corner_blocks (0, 0, 0) [] =
     [((0, 0, 0), West), ((0, 0, 0), East), ((0, 0, 0), Bottom), ((0, 0, 0), Top),
      ((0, 0, 0), South), ((0, 0, 0), North)]"
  by (simp add: CreateCube_def AllFaces_def FaceExposed_def IsActiveAt_def BlockIndex_def
      CHUNK_SIZE_def corner_blocks_def FBlock_default_def example_FaceVertices_def)

lemma cube_interior:
  "CreateCube example_FaceVertices (solid_memory 0) (5, 5, 5) [] = []"
  by (simp add: CreateCube_def AllFaces_def FaceExposed_def IsActiveAt_def BlockIndex_def
      CHUNK_SIZE_def solid_memory_def example_FaceVertices_def)

lemma cube_edge:
  "CreateCube example_FaceVertices (solid_memory 0) (15, 5, 0) [] =
     [((15, 5, 0), East), ((15, 5, 0), South)]"
  by (simp add: CreateCube_def AllFaces_def FaceExposed_def IsActiveAt_def BlockIndex_def
      CHUNK_SIZE_def solid_memory_def example_FaceVertices_def)

end
